theory Spec2Isabelle
  imports Main "HOL-Library.Word"
begin

unbundle bit_operations_syntax

section \<open>Constants and data of \<^verbatim>\<open>small_shell.c\<close>\<close>

definition INPUT_LENGTH :: nat where
  "INPUT_LENGTH = 2048"

definition MAX_ARGS :: nat where
  "MAX_ARGS = 512"

text \<open>
  \<^verbatim>\<open>struct command_line\<close>. The array \<^verbatim>\<open>char* arg_variables[MAX_ARGS + 1]\<close> is a map
  from the index to the slot's content, \<open>None\<close> being the \<^verbatim>\<open>NULL\<close> pointer; a slot index
  is valid when it is below \<open>MAX_ARGS + 1\<close>. The two file names are pointers as well.
  \<^verbatim>\<open>arg_count\<close> is a C \<^verbatim>\<open>int\<close> that starts at 0 and is only incremented, at most once
  for each token of a line shorter than \<open>INPUT_LENGTH\<close>; it is a \<open>nat\<close> here.
\<close>

record command_line =
  arg_variables :: "nat \<Rightarrow> string option"
  arg_count :: nat
  input_file :: "string option"
  output_file :: "string option"
  is_background :: bool

text \<open>
  Undefined behaviour of the C program is a value of the model: passing \<^verbatim>\<open>NULL\<close> where
  the library reads a string (\<^verbatim>\<open>strdup\<close>, \<^verbatim>\<open>strcmp\<close>), and a write outside the
  bounds of \<^verbatim>\<open>arg_variables\<close>.
\<close>

datatype fault = NullDeref | OutOfBounds

text \<open>
  What the shell process did to the outside world, in order: bytes written to the
  standard output (a \<^verbatim>\<open>printf\<close> with the \<^verbatim>\<open>fflush\<close> or \<^verbatim>\<open>exit\<close> that follows it, or a
  direct \<^verbatim>\<open>write\<close>), bytes written to the standard error by \<^verbatim>\<open>perror\<close>, and the system
  calls that change or observe processes, signals and descriptors. \<open>Kill\<close> is
  \<^verbatim>\<open>kill(pid, sig)\<close>; no function of the source calls it.
\<close>

datatype disposition = SIG_IGN | SIG_DFL

datatype sysevent =
    Stdout string
  | Stderr string
  | Chdir string
  | Waitpid int int
  | Kill int int
  | Sigaction int disposition
  | Dup2 int int
  | Close int

text \<open>
  The state of one process: the two global variables and the events so far.
\<close>

record shell =
  latest_status :: int
  foreground_only :: int
  events :: "sysevent list"

definition initial_shell :: shell where
  "initial_shell = \<lparr>latest_status = 0, foreground_only = 0, events = []\<rparr>"

definition emit :: "sysevent \<Rightarrow> shell \<Rightarrow> shell" where
  "emit e s = s\<lparr>events := events s @ [e]\<rparr>"

text \<open>
  How a C function call ends: it returns a value, the process ends through
  \<^verbatim>\<open>exit(code)\<close>, the process image is replaced by \<^verbatim>\<open>execvp(file, argv)\<close>, or the
  behaviour is undefined.
\<close>

datatype 'a outcome =
    Returns 'a shell
  | Exits int shell
  | Execs string "nat \<Rightarrow> string option" shell
  | Faults fault shell

fun state_of :: "'a outcome \<Rightarrow> shell" where
  "state_of (Returns _ s) = s"
| "state_of (Exits _ s) = s"
| "state_of (Execs _ _ s) = s"
| "state_of (Faults _ s) = s"

text \<open>
  What a call gave back to its caller, without the state: the value it returned or the
  fault; \<open>None\<close> when the process ended or was replaced.
\<close>

fun result :: "'a outcome \<Rightarrow> (fault + 'a) option" where
  "result (Returns v _) = Some (Inr v)"
| "result (Faults e _) = Some (Inl e)"
| "result (Exits _ _) = None"
| "result (Execs _ _ _) = None"

text \<open>Sequencing: what follows a call runs only when the call returns.\<close>

fun and_then :: "'a outcome \<Rightarrow> ('a \<Rightarrow> shell \<Rightarrow> 'b outcome) \<Rightarrow> 'b outcome" where
  "and_then (Returns v s) k = k v s"
| "and_then (Exits code s) k = Exits code s"
| "and_then (Execs prog argv s) k = Execs prog argv s"
| "and_then (Faults e s) k = Faults e s"

section \<open>The tokenizer: \<^verbatim>\<open>strtok\<close>\<close>

text \<open>
  \<^verbatim>\<open>strtok\<close> works on the string at its saved pointer: it skips the leading delimiters,
  returns \<^verbatim>\<open>NULL\<close> when nothing is left, and otherwise returns the longest run of
  non-delimiters, saving the position after the delimiter that ended it (or the end of
  the string). The model takes the rest of the string and returns the token with the new
  rest.
\<close>

definition strtok :: "string \<Rightarrow> string \<Rightarrow> (string \<times> string) option" where
  "strtok delim s =
     (let s1 = dropWhile (\<lambda>c. c \<in> set delim) s
      in if s1 = [] then None
         else Some (takeWhile (\<lambda>c. c \<notin> set delim) s1,
                    drop 1 (dropWhile (\<lambda>c. c \<notin> set delim) s1)))"

definition delimiters :: string where
  "delimiters = '' \<newline>''"

lemma strtok_rest_shorter:
  assumes "strtok delim s = Some (t, r)"
  shows "length r < length s"
proof -
  let ?s1 = "dropWhile (\<lambda>c. c \<in> set delim) s"
  from assms have ne: "?s1 \<noteq> []" and r: "r = drop 1 (dropWhile (\<lambda>c. c \<notin> set delim) ?s1)"
    by (auto simp: strtok_def Let_def split: if_splits)
  from ne have "length (drop 1 (dropWhile (\<lambda>c. c \<notin> set delim) ?s1)) < length ?s1"
    by (cases ?s1) (auto intro: le_imp_less_Suc length_dropWhile_le le_trans [OF diff_le_self])
  moreover have "length ?s1 \<le> length s"
    by (rule length_dropWhile_le)
  ultimately show ?thesis
    using r by simp
qed

lemma strtok_token_nonempty:
  assumes "strtok delim s = Some (t, r)"
  shows "t \<noteq> []"
proof -
  let ?s1 = "dropWhile (\<lambda>c. c \<in> set delim) s"
  from assms have ne: "?s1 \<noteq> []" and t: "t = takeWhile (\<lambda>c. c \<notin> set delim) ?s1"
    by (auto simp: strtok_def Let_def split: if_splits)
  from ne have "hd ?s1 \<notin> set delim"
    using hd_dropWhile [of "\<lambda>c. c \<in> set delim" s] by simp
  with ne t show ?thesis
    by (cases ?s1) auto
qed

text \<open>All the tokens that successive calls of \<^verbatim>\<open>strtok\<close> return, up to its \<^verbatim>\<open>NULL\<close>.\<close>

function tokens :: "string \<Rightarrow> string list" where
  "tokens s =
     (case strtok delimiters s of
        None \<Rightarrow> []
      | Some (t, r) \<Rightarrow> t # tokens r)"
  by pat_completeness auto
termination
  by (relation "measure length") (auto dest: strtok_rest_shorter)

declare tokens.simps [simp del]

section \<open>\<^verbatim>\<open>parse_input\<close>\<close>

text \<open>
  \<^verbatim>\<open>calloc(1, sizeof(struct command_line))\<close>: every pointer \<^verbatim>\<open>NULL\<close>, the count 0, the
  flag false. (The allocations of \<^verbatim>\<open>calloc\<close> and \<^verbatim>\<open>strdup\<close> are taken to succeed, and
  \<^verbatim>\<open>free\<close> is not modelled.)
\<close>

definition calloc_command :: command_line where
  "calloc_command =
     \<lparr>arg_variables = (\<lambda>_. None), arg_count = 0, input_file = None,
      output_file = None, is_background = False\<rparr>"

text \<open>
  The body of the \<^verbatim>\<open>while (token)\<close> loop for one token: \<open>rest\<close> is the string at
  the saved pointer of \<^verbatim>\<open>strtok\<close>, and the result carries the new one. The first
  \<^verbatim>\<open>case\<close> is the \<^verbatim>\<open>if\<close>/\<^verbatim>\<open>else if\<close> chain, the second the statement
  \<^verbatim>\<open>arg_variables[arg_count] = NULL\<close> after it. \<^verbatim>\<open>strdup(strtok(NULL, " \n"))\<close> with no
  token left passes \<^verbatim>\<open>NULL\<close> to \<^verbatim>\<open>strdup\<close>.
\<close>

definition parse_token ::
  "int \<Rightarrow> string \<Rightarrow> string \<Rightarrow> command_line \<Rightarrow> fault + (command_line \<times> string)" where
  "parse_token fg_only token rest c =
     (case
        (if token = ''<'' then
           (case strtok delimiters rest of
              None \<Rightarrow> Inl NullDeref
            | Some (name, rest1) \<Rightarrow> Inr (c\<lparr>input_file := Some name\<rparr>, rest1))
         else if token = ''>'' then
           (case strtok delimiters rest of
              None \<Rightarrow> Inl NullDeref
            | Some (name, rest1) \<Rightarrow> Inr (c\<lparr>output_file := Some name\<rparr>, rest1))
         else if token = ''&'' then
           Inr (if fg_only = 0 then c\<lparr>is_background := True\<rparr> else c, rest)
         else if arg_count c < MAX_ARGS + 1 then
           Inr (c\<lparr>arg_variables := (arg_variables c)(arg_count c := Some token),
                  arg_count := arg_count c + 1\<rparr>, rest)
         else Inl OutOfBounds)
      of
        Inl e \<Rightarrow> Inl e
      | Inr (c1, rest1) \<Rightarrow>
          if arg_count c1 < MAX_ARGS + 1 then
            Inr (c1\<lparr>arg_variables := (arg_variables c1)(arg_count c1 := None)\<rparr>, rest1)
          else Inl OutOfBounds)"

lemma parse_token_rest:
  assumes "parse_token fg_only token rest c = Inr (c', rest')"
  shows "length rest' \<le> length rest"
  using assms
  by (auto simp: parse_token_def split: if_splits option.splits sum.splits
           dest!: strtok_rest_shorter)

lemma strtok_measure:
  "(case strtok delim r of None \<Rightarrow> 0 | Some (t, r') \<Rightarrow> Suc (length r')) \<le> length r"
  by (auto split: option.splits dest: strtok_rest_shorter)

text \<open>
  The loop: its argument is what the latest call of \<^verbatim>\<open>strtok\<close> returned, \<open>None\<close> for
  \<^verbatim>\<open>NULL\<close>, with the string left at the saved pointer.
\<close>

function parse_loop ::
  "int \<Rightarrow> (string \<times> string) option \<Rightarrow> command_line \<Rightarrow> fault + command_line" where
  "parse_loop fg_only None c = Inr c"
| "parse_loop fg_only (Some (token, rest)) c =
     (case parse_token fg_only token rest c of
        Inl e \<Rightarrow> Inl e
      | Inr (c', rest') \<Rightarrow> parse_loop fg_only (strtok delimiters rest') c')"
  by pat_completeness auto
termination
proof (relation "measure (\<lambda>(fg_only, tok, c). case tok of None \<Rightarrow> 0 | Some (t, r) \<Rightarrow> Suc (length r))")
  show "wf (measure (\<lambda>(fg_only, tok, c). case tok of None \<Rightarrow> 0 | Some (t, r) \<Rightarrow> Suc (length r)))"
    by simp
next
  fix fg_only :: int and token rest :: string and c x2 :: command_line
    and x :: "command_line \<times> string" and rest' :: string and y :: command_line
  assume "parse_token fg_only token rest c = Inr x" and "(y, rest') = x"
  then have "length rest' \<le> length rest"
    using parse_token_rest [of fg_only token rest c y rest'] by simp
  then show "((fg_only, strtok delimiters rest', y), (fg_only, Some (token, rest), c))
      \<in> measure (\<lambda>(fg_only, tok, c). case tok of None \<Rightarrow> 0 | Some (t, r) \<Rightarrow> Suc (length r))"
    using strtok_measure [of delimiters rest'] by simp
qed

text \<open>
  The line that \<^verbatim>\<open>fgets\<close> stored in \<^verbatim>\<open>input_buffer\<close> is the argument \<open>input_buffer\<close>:
  the bytes before the terminating NUL. \<^verbatim>\<open>input_buffer[0]\<close> is its first byte, the NUL
  itself when there is none, and the string functions see the bytes before the first
  NUL. (\<^verbatim>\<open>fgets\<close> is taken to have read a line; at the end of the input it leaves the
  buffer as it was, which is outside the model.)
\<close>

definition first_byte :: "string \<Rightarrow> char" where
  "first_byte b = (case b of [] \<Rightarrow> CHR 0x00 | ch # _ \<Rightarrow> ch)"

definition c_str :: "string \<Rightarrow> string" where
  "c_str b = takeWhile (\<lambda>ch. ch \<noteq> CHR 0x00) b"

definition parse_input :: "string \<Rightarrow> shell \<Rightarrow> command_line option outcome" where
  "parse_input input_buffer s =
     (let s1 = emit (Stdout '': '') s
      in if first_byte input_buffer = CHR ''\<newline>'' \<or> first_byte input_buffer = CHR ''#''
         then Returns None s1
         else
           (case parse_loop (foreground_only s1) (strtok delimiters (c_str input_buffer))
                   calloc_command of
              Inl e \<Rightarrow> Faults e s1
            | Inr c \<Rightarrow> Returns (Some c) s1))"

section \<open>The operating system\<close>

text \<open>
  What the system calls return is not decided by the program; it is a parameter of the
  model. \<open>waitpid_status\<close> is the status that the blocking \<^verbatim>\<open>waitpid(pid, &child_status, 0)\<close>
  stores (the call is taken to succeed), \<open>reaped\<close> the successive results, return value
  and status, of \<^verbatim>\<open>waitpid(-1, &child_status, WNOHANG)\<close> before the call that finds no
  finished child, \<open>strerror_errno\<close> the text that \<^verbatim>\<open>perror\<close> prints for \<^verbatim>\<open>errno\<close>.
\<close>

datatype open_flags = O_RDONLY | O_WRONLY | O_WRONLY_CREAT_TRUNC

record os_env =
  getenv_HOME :: "string option"
  chdir_ret :: "string \<Rightarrow> int"
  strerror_errno :: string
  fork_ret :: int
  waitpid_status :: "int \<Rightarrow> int"
  reaped :: "(int \<times> int) list"
  open_ret :: "string \<Rightarrow> open_flags \<Rightarrow> int"
  execvp_found :: "string \<Rightarrow> bool"

text \<open>
  Modelled from the spec: the headers \<^verbatim>\<open>signal.h\<close>, \<^verbatim>\<open>unistd.h\<close> and \<^verbatim>\<open>sys/wait.h\<close>
  are not part of the repository. The signal and descriptor numbers and the decoding of
  the raw wait status are those of Linux with glibc: the low seven bits of the status
  are the terminating signal, bits 8 to 15 the exit code, so that the raw status 0, the
  initial \<^verbatim>\<open>latest_status\<close>, is the spec's "exited with code 0".
\<close>

definition SIGINT :: int where "SIGINT = 2"
definition SIGTSTP :: int where "SIGTSTP = 20"
definition STDIN_FILENO :: int where "STDIN_FILENO = 0"
definition STDOUT_FILENO :: int where "STDOUT_FILENO = 1"
definition WNOHANG :: int where "WNOHANG = 1"

definition WTERMSIG :: "int \<Rightarrow> int" where
  "WTERMSIG status = status AND 0x7f"

definition WEXITSTATUS :: "int \<Rightarrow> int" where
  "WEXITSTATUS status = drop_bit 8 (status AND 0xff00)"

definition WIFEXITED :: "int \<Rightarrow> bool" where
  "WIFEXITED status = (WTERMSIG status = 0)"

definition WIFSIGNALED :: "int \<Rightarrow> bool" where
  "WIFSIGNALED status =
     (0 < sint (signed_drop_bit 1 (word_of_int ((status AND 0x7f) + 1) :: 8 word)))"

subsection \<open>\<^verbatim>\<open>printf("%d")\<close>\<close>

fun show_nat :: "nat \<Rightarrow> string" where
  "show_nat n =
     (if n < 10 then [''0123456789'' ! n]
      else show_nat (n div 10) @ [''0123456789'' ! (n mod 10)])"

declare show_nat.simps [simp del]

definition show_int :: "int \<Rightarrow> string" where
  "show_int i = (if i < 0 then ''-'' @ show_nat (nat (- i)) else show_nat (nat i))"

section \<open>\<^verbatim>\<open>built_in_commands\<close>\<close>

text \<open>
  \<^verbatim>\<open>strcmp(current_command->arg_variables[0], "exit")\<close> reads the first slot, whatever it
  holds: a \<^verbatim>\<open>NULL\<close> there is a fault. So is \<^verbatim>\<open>chdir(NULL)\<close>, which no command that
  \<open>parse_input\<close> returns can reach. The \<open>exit\<close> branch frees the command and calls
  \<^verbatim>\<open>exit(0)\<close>, nothing else.
\<close>

definition built_in_commands :: "os_env \<Rightarrow> command_line \<Rightarrow> shell \<Rightarrow> int outcome" where
  "built_in_commands os c s =
     (case arg_variables c 0 of
        None \<Rightarrow> Faults NullDeref s
      | Some name \<Rightarrow>
          if name = ''exit'' then Exits 0 s
          else if name = ''cd'' then
            (if arg_count c = 1 then
               (case getenv_HOME os of
                  None \<Rightarrow> Returns 0 s
                | Some home \<Rightarrow> Returns 0 (emit (Chdir home) s))
             else
               (case arg_variables c 1 of
                  None \<Rightarrow> Faults NullDeref s
                | Some dir \<Rightarrow>
                    if chdir_ret os dir = - 1
                    then Returns 0
                           (emit (Stderr (''cd: '' @ strerror_errno os @ ''\<newline>''))
                              (emit (Chdir dir) s))
                    else Returns 0 (emit (Chdir dir) s)))
          else if name = ''status'' then
            (if WIFSIGNALED (latest_status s) then
               Returns 0
                 (emit (Stdout (''terminated by signal '' @
                     show_int (WTERMSIG (latest_status s)) @ ''\<newline>'')) s)
             else if WIFEXITED (latest_status s) then
               Returns 0
                 (emit (Stdout (''exit value '' @
                     show_int (WEXITSTATUS (latest_status s)) @ ''\<newline>'')) s)
             else Returns 0 s)
          else Returns (- 1) s)"

section \<open>\<^verbatim>\<open>file_redirection\<close>\<close>

text \<open>The two halves of the function, for the standard input and the standard output.\<close>

definition redirect_input :: "os_env \<Rightarrow> command_line \<Rightarrow> shell \<Rightarrow> unit outcome" where
  "redirect_input os c s =
     (case input_file c of
        Some path \<Rightarrow>
          (let input_descriptor = open_ret os path O_RDONLY
           in if input_descriptor = - 1
              then Exits 1 (emit (Stdout (''cannot open '' @ path @ '' for input\<newline>'')) s)
              else Returns ()
                     (emit (Close input_descriptor)
                        (emit (Dup2 input_descriptor STDIN_FILENO) s)))
      | None \<Rightarrow>
          if is_background c then
            (let input_descriptor = open_ret os ''/dev/null'' O_RDONLY
             in if input_descriptor = - 1
                then Exits 1 (emit (Stdout ''open error\<newline>'') s)
                else Returns ()
                       (emit (Close input_descriptor)
                          (emit (Dup2 input_descriptor STDIN_FILENO) s)))
          else Returns () s)"

definition redirect_output :: "os_env \<Rightarrow> command_line \<Rightarrow> shell \<Rightarrow> unit outcome" where
  "redirect_output os c s =
     (case output_file c of
        Some path \<Rightarrow>
          (let output_descriptor = open_ret os path O_WRONLY_CREAT_TRUNC
           in if output_descriptor = - 1
              then Exits 1 (emit (Stdout (''cannot open '' @ path @ '' for output\<newline>'')) s)
              else Returns ()
                     (emit (Close output_descriptor)
                        (emit (Dup2 output_descriptor STDOUT_FILENO) s)))
      | None \<Rightarrow>
          if is_background c then
            (let output_descriptor = open_ret os ''/dev/null'' O_WRONLY
             in if output_descriptor = - 1
                then Exits 1 (emit (Stdout ''open error\<newline>'') s)
                else Returns ()
                       (emit (Close output_descriptor)
                          (emit (Dup2 output_descriptor STDOUT_FILENO) s)))
          else Returns () s)"

definition file_redirection :: "os_env \<Rightarrow> command_line \<Rightarrow> shell \<Rightarrow> unit outcome" where
  "file_redirection os c s =
     and_then (redirect_input os c s) (\<lambda>_ s1. redirect_output os c s1)"

section \<open>\<^verbatim>\<open>manage_child_process\<close> and \<^verbatim>\<open>exec_commands\<close>\<close>

definition manage_child_process :: "os_env \<Rightarrow> command_line \<Rightarrow> int \<Rightarrow> shell \<Rightarrow> shell" where
  "manage_child_process os c spawnpid s =
     (if is_background c then
        emit (Stdout (''background pid is '' @ show_int spawnpid @ ''\<newline>'')) s
      else
        (let child_status = waitpid_status os spawnpid;
             s1 = emit (Waitpid spawnpid 0) s;
             s2 = s1\<lparr>latest_status := child_status\<rparr>
         in if WIFSIGNALED child_status then
              emit (Stdout (''terminated by signal '' @
                  show_int (WTERMSIG child_status) @ ''\<newline>'')) s2
            else s2))"

text \<open>
  \<^verbatim>\<open>fork\<close> returns in two processes. With \<open>fork_ret os = 0\<close> the function runs in the
  child, whose state is a copy of the shell's; otherwise it runs in the shell.
\<close>

definition exec_commands :: "os_env \<Rightarrow> command_line \<Rightarrow> shell \<Rightarrow> int outcome" where
  "exec_commands os c s =
     (let spawnpid = fork_ret os
      in if spawnpid = - 1 then
           Returns 1 (emit (Stderr (''fork: '' @ strerror_errno os @ ''\<newline>'')) s)
         else if spawnpid = 0 then
           (let s1 = emit (Sigaction SIGINT (if is_background c then SIG_IGN else SIG_DFL)) s;
                s2 = emit (Sigaction SIGTSTP SIG_IGN) s1
            in and_then (file_redirection os c s2) (\<lambda>_ s3.
                 case arg_variables c 0 of
                   None \<Rightarrow> Faults NullDeref s3
                 | Some prog \<Rightarrow>
                     if execvp_found os prog then Execs prog (arg_variables c) s3
                     else Exits 1
                            (emit (Stdout (prog @ '': no such file or directory\<newline>'')) s3)))
         else Returns 0 (manage_child_process os c spawnpid s))"

section \<open>\<^verbatim>\<open>background_tracker\<close>\<close>

fun reap_loop :: "(int \<times> int) list \<Rightarrow> shell \<Rightarrow> shell" where
  "reap_loop [] s = emit (Waitpid (- 1) WNOHANG) s"
| "reap_loop ((completed_pid, child_status) # later) s =
     (let s1 = emit (Waitpid (- 1) WNOHANG) s
      in if completed_pid > 0 then
           reap_loop later
             (if WIFEXITED child_status then
                emit (Stdout (''background pid '' @ show_int completed_pid @
                    '' is done: exit value '' @ show_int (WEXITSTATUS child_status) @
                    ''\<newline>'')) s1
              else if WIFSIGNALED child_status then
                emit (Stdout (''background pid '' @ show_int completed_pid @
                    '' is done: terminated by signal '' @ show_int (WTERMSIG child_status) @
                    ''\<newline>'')) s1
              else s1)
         else s1)"

definition background_tracker :: "os_env \<Rightarrow> shell \<Rightarrow> shell" where
  "background_tracker os s = reap_loop (reaped os) s"

section \<open>\<^verbatim>\<open>handle_signal_tstp\<close>\<close>

definition start_message :: string where
  "start_message = ''\<newline>Entering foreground-only mode (& is now ignored)\<newline> ''"

definition exit_message :: string where
  "exit_message = ''\<newline>Exiting foreground-only mode\<newline> ''"

definition handle_signal_tstp :: "shell \<Rightarrow> shell" where
  "handle_signal_tstp s =
     (if foreground_only s = 0 then emit (Stdout start_message) (s\<lparr>foreground_only := 1\<rparr>)
      else emit (Stdout exit_message) (s\<lparr>foreground_only := 0\<rparr>))"

section \<open>The loop of \<^verbatim>\<open>main\<close>\<close>

text \<open>
  One pass through the body of \<^verbatim>\<open>while (true)\<close>, on the line that \<^verbatim>\<open>fgets\<close> reads in
  it; \<open>Returns ()\<close> is the end of the body or a \<^verbatim>\<open>continue\<close>, after which the loop
  starts its next pass. (Before the loop, \<^verbatim>\<open>main\<close> makes the shell ignore \<^verbatim>\<open>SIGINT\<close>
  and installs \<open>handle_signal_tstp\<close> for \<^verbatim>\<open>SIGTSTP\<close>; when the handler runs is not
  decided by the program.)
\<close>

definition shell_iteration :: "os_env \<Rightarrow> string \<Rightarrow> shell \<Rightarrow> unit outcome" where
  "shell_iteration os input_buffer s =
     and_then (parse_input input_buffer (background_tracker os s)) (\<lambda>current_command s1.
       case current_command of
         None \<Rightarrow> Returns () s1
       | Some c \<Rightarrow>
           and_then (built_in_commands os c s1) (\<lambda>r s2.
             if r = 0 then Returns () s2
             else and_then (exec_commands os c s2) (\<lambda>_ s3. Returns () s3)))"

fun main_loop :: "(os_env \<times> string) list \<Rightarrow> shell \<Rightarrow> unit outcome" where
  "main_loop [] s = Returns () s"
| "main_loop ((os, input_buffer) # later) s =
     and_then (shell_iteration os input_buffer s) (\<lambda>_ s1. main_loop later s1)"

section \<open>Example inputs\<close>

text \<open>
  An operating system in which \<^verbatim>\<open>fork\<close> returns \<open>pid\<close>, the child waited for ends with
  the raw status \<open>status\<close>, no other child has finished, every \<^verbatim>\<open>chdir\<close> fails and
  every \<^verbatim>\<open>open\<close> and \<^verbatim>\<open>execvp\<close> succeeds.
\<close>

definition example_os :: "int \<Rightarrow> int \<Rightarrow> os_env" where
  "example_os pid status =
     \<lparr>getenv_HOME = Some ''/root'', chdir_ret = (\<lambda>_. - 1),
      strerror_errno = ''No such file or directory'', fork_ret = pid,
      waitpid_status = (\<lambda>_. status), reaped = [], open_ret = (\<lambda>_ _. 3),
      execvp_found = (\<lambda>_. True)\<rparr>"

text \<open>The commands that \<open>parse_input\<close> returns for \<^verbatim>\<open>status &\<close> and, in foreground-only
  mode, for \<^verbatim>\<open>sleep 5 &\<close>.\<close>

definition status_background_command :: command_line where
  "status_background_command =
     \<lparr>arg_variables = (\<lambda>_. None)(0 := Some ''status''), arg_count = 1, input_file = None,
      output_file = None, is_background = True\<rparr>"

definition sleep_command :: command_line where
  "sleep_command =
     \<lparr>arg_variables = (\<lambda>_. None)(0 := Some ''sleep'', 1 := Some ''5''), arg_count = 2,
      input_file = None, output_file = None, is_background = False\<rparr>"

text \<open>A line of \<open>MAX_ARGS + 1\<close> arguments of one letter: 1027 bytes.\<close>

definition many_arguments_line :: string where
  "many_arguments_line = concat (replicate (MAX_ARGS + 1) ''a '') @ ''\<newline>''"

section \<open>Redirection operators without a file name\<close>

text \<open>
  A property of the token sequence of a line, read from left to right as the loop of
  \<open>parse_input\<close> reads it: a \<^verbatim>\<open><\<close> or \<^verbatim>\<open>>\<close> takes the token after it as its file
  name, whatever that token is, and the sequence has a dangling redirection when such an
  operator is its last token.
\<close>

fun dangling_redirection :: "string list \<Rightarrow> bool" where
  "dangling_redirection [] = False"
| "dangling_redirection [t] = (t = ''<'' \<or> t = ''>'')"
| "dangling_redirection (t # name # ts) =
     (if t = ''<'' \<or> t = ''>'' then dangling_redirection ts
      else dangling_redirection (name # ts))"

section \<open>Properties\<close>

lemmas eval_defs =
  parse_input_def first_byte_def c_str_def strtok_def delimiters_def parse_token_def
  calloc_command_def MAX_ARGS_def emit_def initial_shell_def shell_iteration_def
  background_tracker_def built_in_commands_def exec_commands_def manage_child_process_def
  show_int_def show_nat.simps WNOHANG_def WIFSIGNALED_def WIFEXITED_def WTERMSIG_def
  WEXITSTATUS_def handle_signal_tstp_def start_message_def exit_message_def example_os_def
  status_background_command_def sleep_command_def

subsection \<open>What leaves \<^verbatim>\<open>latest_status\<close> alone\<close>

lemma latest_status_emit: "latest_status (emit e s) = latest_status s"
  by (simp add: emit_def)

lemma foreground_only_emit: "foreground_only (emit e s) = foreground_only s"
  by (simp add: emit_def)

lemma latest_status_reap_loop: "latest_status (reap_loop rs s) = latest_status s"
  by (induction rs s rule: reap_loop.induct) (simp_all add: Let_def latest_status_emit)

lemma latest_status_background_tracker:
  "latest_status (background_tracker os s) = latest_status s"
  by (simp add: background_tracker_def latest_status_reap_loop)

lemma state_of_parse_input: "state_of (parse_input b s) = emit (Stdout '': '') s"
  by (simp add: parse_input_def Let_def split: sum.splits)

lemma latest_status_built_in_commands:
  "latest_status (state_of (built_in_commands os c s)) = latest_status s"
  by (simp add: built_in_commands_def latest_status_emit split: option.splits)

lemma latest_status_redirect_input:
  "latest_status (state_of (redirect_input os c s)) = latest_status s"
  by (simp add: redirect_input_def Let_def latest_status_emit split: option.splits)

lemma latest_status_redirect_output:
  "latest_status (state_of (redirect_output os c s)) = latest_status s"
  by (simp add: redirect_output_def Let_def latest_status_emit split: option.splits)

lemma latest_status_file_redirection:
  "latest_status (state_of (file_redirection os c s)) = latest_status s"
  using latest_status_redirect_input [of os c s]
    latest_status_redirect_output [of os c]
  by (cases "redirect_input os c s") (simp_all add: file_redirection_def)

lemma latest_status_exec_child:
  "fork_ret os = 0 \<Longrightarrow> latest_status (state_of (exec_commands os c s)) = latest_status s"
  using latest_status_file_redirection
    [of os c "emit (Sigaction SIGTSTP SIG_IGN)
       (emit (Sigaction SIGINT (if is_background c then SIG_IGN else SIG_DFL)) s)"]
  by (cases "file_redirection os c (emit (Sigaction SIGTSTP SIG_IGN)
       (emit (Sigaction SIGINT (if is_background c then SIG_IGN else SIG_DFL)) s))")
     (simp_all add: exec_commands_def Let_def latest_status_emit split: option.splits)

lemma latest_status_exec_background:
  "is_background c \<Longrightarrow> latest_status (state_of (exec_commands os c s)) = latest_status s"
  using latest_status_exec_child [of os c s]
  by (cases "fork_ret os = 0")
     (simp_all add: exec_commands_def Let_def manage_child_process_def latest_status_emit)

lemma latest_status_exec_fork_failed:
  "fork_ret os = - 1 \<Longrightarrow> latest_status (state_of (exec_commands os c s)) = latest_status s"
  by (simp add: exec_commands_def Let_def latest_status_emit)


lemma built_in_commands_not_handled:
  assumes "built_in_commands os c s = Returns r s'" and "r \<noteq> 0"
  shows "s' = s \<and> (\<exists>name. arg_variables c 0 = Some name \<and> name \<noteq> ''exit'' \<and>
           name \<noteq> ''cd'' \<and> name \<noteq> ''status'')"
  using assms
  by (auto simp: built_in_commands_def split: option.splits if_splits)

lemma exec_commands_changes_status:
  assumes "latest_status (state_of (exec_commands os c s)) \<noteq> latest_status s"
  shows "\<not> is_background c \<and> fork_ret os \<noteq> - 1 \<and> fork_ret os \<noteq> 0 \<and>
         Waitpid (fork_ret os) 0 \<in> set (events (state_of (exec_commands os c s))) \<and>
         latest_status (state_of (exec_commands os c s)) = waitpid_status os (fork_ret os)"
proof -
  from assms have bg: "\<not> is_background c"
    using latest_status_exec_background by blast
  from assms have f1: "fork_ret os \<noteq> - 1"
    using latest_status_exec_fork_failed by blast
  from assms have f0: "fork_ret os \<noteq> 0"
    using latest_status_exec_child by blast
  from bg f1 f0 show ?thesis
    by (simp add: exec_commands_def manage_child_process_def Let_def emit_def)
qed

lemma iteration_changes_status:
  assumes "latest_status (state_of (shell_iteration os input_buffer s)) \<noteq> latest_status s"
  shows "\<exists>c name.
           result (parse_input input_buffer (background_tracker os s)) = Some (Inr (Some c)) \<and>
           arg_variables c 0 = Some name \<and> name \<noteq> ''exit'' \<and> name \<noteq> ''cd'' \<and>
           name \<noteq> ''status'' \<and> \<not> is_background c \<and> fork_ret os \<noteq> - 1 \<and> fork_ret os \<noteq> 0 \<and>
           Waitpid (fork_ret os) 0 \<in> set (events (state_of (shell_iteration os input_buffer s))) \<and>
           latest_status (state_of (shell_iteration os input_buffer s)) =
             waitpid_status os (fork_ret os)"
proof -
  let ?s0 = "background_tracker os s"
  let ?s1 = "emit (Stdout '': '') ?s0"
  have s1: "latest_status ?s1 = latest_status s"
    by (simp add: latest_status_emit latest_status_background_tracker)
  have st: "state_of (parse_input input_buffer ?s0) = ?s1"
    by (rule state_of_parse_input)
  show ?thesis
  proof (cases "parse_input input_buffer ?s0")
    case (Returns cmd s1')
    with st have [simp]: "s1' = ?s1" by simp
    show ?thesis
    proof (cases cmd)
      case None
      with Returns assms s1 show ?thesis
        by (simp add: shell_iteration_def)
    next
      case (Some c)
      have b: "latest_status (state_of (built_in_commands os c ?s1)) = latest_status s"
        using s1 by (simp add: latest_status_built_in_commands)
      show ?thesis
      proof (cases "built_in_commands os c ?s1")
        case (Returns r s2)
        show ?thesis
        proof (cases "r = 0")
          case True
          with Returns \<open>parse_input input_buffer ?s0 = Returns cmd s1'\<close> Some assms b
          show ?thesis by (simp add: shell_iteration_def)
        next
          case False
          from built_in_commands_not_handled [OF Returns False]
          obtain name where s2: "s2 = ?s1" and n: "arg_variables c 0 = Some name"
            "name \<noteq> ''exit''" "name \<noteq> ''cd''" "name \<noteq> ''status''"
            by blast
          have it: "state_of (shell_iteration os input_buffer s) =
                      state_of (exec_commands os c ?s1)"
            using Returns \<open>parse_input input_buffer ?s0 = Returns cmd s1'\<close> Some False s2
            by (cases "exec_commands os c ?s1") (simp_all add: shell_iteration_def)
          with assms s1 have "latest_status (state_of (exec_commands os c ?s1)) \<noteq>
              latest_status ?s1" by simp
          from exec_commands_changes_status [OF this] it n
            \<open>parse_input input_buffer ?s0 = Returns cmd s1'\<close> Some
          show ?thesis by simp
        qed
      qed (use \<open>parse_input input_buffer ?s0 = Returns cmd s1'\<close> Some assms b
           in \<open>simp_all add: shell_iteration_def\<close>)
    qed
  qed (use assms s1 st in \<open>simp_all add: shell_iteration_def\<close>)
qed

lemma WIFSIGNALED_0: "\<not> WIFSIGNALED 0"
  by (simp add: WIFSIGNALED_def)

lemma WIFEXITED_0: "WIFEXITED 0"
  by (simp add: WIFEXITED_def WTERMSIG_def)

lemma WEXITSTATUS_0: "WEXITSTATUS 0 = 0"
  by (simp add: WEXITSTATUS_def)

lemma show_int_0: "show_int 0 = ''0''"
  by (simp add: show_int_def show_nat.simps)


text \<open>
  C1. The Foreground Status \<^verbatim>\<open>latest_status\<close> is 0 at the start, which the
  \<^verbatim>\<open>status\<close> built-in reports as \<^verbatim>\<open>exit value 0\<close>. No call of \<open>built_in_commands\<close>
  (\<^verbatim>\<open>exit\<close>, \<^verbatim>\<open>cd\<close> also when \<^verbatim>\<open>chdir\<close> fails, \<^verbatim>\<open>status\<close>, or any other name) changes
  it, nor do \<open>background_tracker\<close> and the \<^verbatim>\<open>SIGTSTP\<close> handler, and no launch of a
  background command does. A pass of the main loop changes it only
  when the line is an external command that is not in the background, \<^verbatim>\<open>fork\<close> succeeded
  and the shell waited for that child with a blocking \<^verbatim>\<open>waitpid\<close>; the new value is the
  status that this call stored.
\<close>

theorem foreground_status_invariant:
  "latest_status initial_shell = 0 \<and>
   latest_status (state_of (built_in_commands os c s)) = latest_status s \<and>
   latest_status (background_tracker os s) = latest_status s \<and>
   latest_status (handle_signal_tstp s) = latest_status s \<and>
   (is_background c \<longrightarrow>
      latest_status (state_of (exec_commands os c s)) = latest_status s) \<and>
   (arg_variables c 0 = Some ''status'' \<and> latest_status s = 0 \<longrightarrow>
      built_in_commands os c s = Returns 0 (emit (Stdout ''exit value 0\<newline>'') s)) \<and>
   (latest_status (state_of (shell_iteration os input_buffer s)) \<noteq> latest_status s \<longrightarrow>
      (\<exists>c' name.
         result (parse_input input_buffer (background_tracker os s)) = Some (Inr (Some c')) \<and>
         arg_variables c' 0 = Some name \<and> name \<noteq> ''exit'' \<and> name \<noteq> ''cd'' \<and>
         name \<noteq> ''status'' \<and> \<not> is_background c' \<and> fork_ret os \<noteq> - 1 \<and> fork_ret os \<noteq> 0 \<and>
         Waitpid (fork_ret os) 0 \<in> set (events (state_of (shell_iteration os input_buffer s))) \<and>
         latest_status (state_of (shell_iteration os input_buffer s)) =
           waitpid_status os (fork_ret os)))"
proof (intro conjI impI)
  show "latest_status initial_shell = 0"
    by (simp add: initial_shell_def)
  show "latest_status (state_of (built_in_commands os c s)) = latest_status s"
    by (rule latest_status_built_in_commands)
  show "latest_status (background_tracker os s) = latest_status s"
    by (rule latest_status_background_tracker)
  show "latest_status (handle_signal_tstp s) = latest_status s"
    by (simp add: handle_signal_tstp_def latest_status_emit)
  show "latest_status (state_of (exec_commands os c s)) = latest_status s"
    if "is_background c"
    using that by (rule latest_status_exec_background)
  show "built_in_commands os c s = Returns 0 (emit (Stdout ''exit value 0\<newline>'') s)"
    if "arg_variables c 0 = Some ''status'' \<and> latest_status s = 0"
    using that
    by (simp add: built_in_commands_def WIFSIGNALED_0 WIFEXITED_0 WEXITSTATUS_0 show_int_0)
  show "\<exists>c' name.
         result (parse_input input_buffer (background_tracker os s)) = Some (Inr (Some c')) \<and>
         arg_variables c' 0 = Some name \<and> name \<noteq> ''exit'' \<and> name \<noteq> ''cd'' \<and>
         name \<noteq> ''status'' \<and> \<not> is_background c' \<and> fork_ret os \<noteq> - 1 \<and> fork_ret os \<noteq> 0 \<and>
         Waitpid (fork_ret os) 0 \<in> set (events (state_of (shell_iteration os input_buffer s))) \<and>
         latest_status (state_of (shell_iteration os input_buffer s)) =
           waitpid_status os (fork_ret os)"
    if "latest_status (state_of (shell_iteration os input_buffer s)) \<noteq> latest_status s"
    using that by (rule iteration_changes_status)
qed



theorem foreground_status_invariant_witness:
  "is_background status_background_command \<and>
   arg_variables status_background_command 0 = Some ''status'' \<and>
   latest_status initial_shell = 0 \<and>
   latest_status (state_of (shell_iteration (example_os 4923 256) ''ls\<newline>'' initial_shell)) \<noteq>
     latest_status initial_shell \<and>
   latest_status (state_of
     (exec_commands (example_os 4923 256) status_background_command initial_shell)) = 0 \<and>
   built_in_commands (example_os 4923 256) status_background_command initial_shell =
     Returns 0 (emit (Stdout ''exit value 0\<newline>'') initial_shell) \<and>
   latest_status (state_of (shell_iteration (example_os 4923 256) ''ls\<newline>'' initial_shell)) =
     256"
  using foreground_status_invariant
    [of "example_os 4923 256" status_background_command initial_shell "''ls\<newline>''"]
  by (simp add: eval_defs)

subsection \<open>The \<^verbatim>\<open>exit\<close> built-in\<close>

text \<open>
  C2. The shell starts \<^verbatim>\<open>sleep 100 &\<close> as the background child 4923 and then reads
  \<^verbatim>\<open>exit\<close>: it ends with exit status 0, and the events of the whole run hold no
  \<open>Kill\<close>. The child is sent no signal.
\<close>

theorem exit_sends_no_signal:
  "main_loop [(example_os 4923 0, ''sleep 100 &\<newline>''), (example_os 4923 0, ''exit\<newline>'')]
     initial_shell =
   Exits 0
     \<lparr>latest_status = 0, foreground_only = 0,
      events = [Waitpid (- 1) 1, Stdout '': '', Stdout ''background pid is 4923\<newline>'',
                Waitpid (- 1) 1, Stdout '': '']\<rparr>"
  by (simp add: eval_defs)

subsection \<open>Foreground-only mode\<close>

lemma parse_token_keeps_foreground:
  assumes "fg_only \<noteq> 0" and "parse_token fg_only token rest c = Inr (c', rest')"
  shows "is_background c' = is_background c"
  using assms
  by (auto simp: parse_token_def split: if_splits option.splits sum.splits)

lemma parse_loop_keeps_foreground:
  assumes "fg_only \<noteq> 0" and "parse_loop fg_only tok c = Inr c'"
  shows "is_background c' = is_background c"
  using assms
proof (induction fg_only tok c rule: parse_loop.induct)
  case (1 fg_only c)
  then show ?case by simp
next
  case (2 fg_only token rest c)
  from "2.prems"(2) obtain c1 rest1 where
    pt: "parse_token fg_only token rest c = Inr (c1, rest1)" and
    pl: "parse_loop fg_only (strtok delimiters rest1) c1 = Inr c'"
    by (auto split: sum.splits)
  from "2.IH" [OF pt refl "2.prems"(1) pl] parse_token_keeps_foreground [OF "2.prems"(1) pt]
  show ?case by simp
qed

lemma foreground_only_reap_loop: "foreground_only (reap_loop rs s) = foreground_only s"
  by (induction rs s rule: reap_loop.induct) (simp_all add: Let_def foreground_only_emit)

lemma foreground_only_background_tracker:
  "foreground_only (background_tracker os s) = foreground_only s"
  by (simp add: background_tracker_def foreground_only_reap_loop)

lemma parse_input_keeps_foreground:
  assumes "foreground_only s \<noteq> 0" and "parse_input input_buffer s = Returns (Some c) s1"
  shows "\<not> is_background c"
proof -
  from assms(2) have
    "parse_loop (foreground_only s) (strtok delimiters (c_str input_buffer)) calloc_command = Inr c"
    by (simp add: parse_input_def Let_def emit_def split: if_splits sum.splits)
  from parse_loop_keeps_foreground [OF assms(1) this]
  show ?thesis
    by (simp add: calloc_command_def)
qed

lemma built_in_commands_external:
  assumes "arg_variables c 0 = Some name" "name \<noteq> ''exit''" "name \<noteq> ''cd''" "name \<noteq> ''status''"
  shows "built_in_commands os c s = Returns (- 1) s"
  using assms by (simp add: built_in_commands_def)

lemma exec_commands_foreground:
  assumes "\<not> is_background c" and "fork_ret os \<noteq> - 1" and "fork_ret os \<noteq> 0"
  shows "exec_commands os c s =
           Returns 0
             (s\<lparr>latest_status := waitpid_status os (fork_ret os),
                events := events s @ Waitpid (fork_ret os) 0 #
                  (if WIFSIGNALED (waitpid_status os (fork_ret os))
                   then [Stdout (''terminated by signal '' @
                           show_int (WTERMSIG (waitpid_status os (fork_ret os))) @
                           ''\<newline>'')]
                   else [])\<rparr>)"
  using assms by (simp add: exec_commands_def manage_child_process_def Let_def emit_def)


text \<open>
  C3. In foreground-only mode (\<^verbatim>\<open>foreground_only\<close> is not 0 when the pass of the main
  loop begins, hence when the line is parsed), the command that \<open>parse_input\<close> returns
  for a line whose last token is \<^verbatim>\<open>&\<close> has its background flag false. When the name of
  that command is not a built-in, so that the shell spawns a child, and \<^verbatim>\<open>fork\<close>
  succeeds, the whole pass runs the command in the foreground: after the prompt, the shell
  calls the blocking \<^verbatim>\<open>waitpid\<close> on the child and stores its status, all it prints is
  the \<^verbatim>\<open>terminated by signal\<close> line of a child that a signal killed, never
  \<^verbatim>\<open>background pid is\<close>, and only then does the loop start its next pass.
\<close>

theorem foreground_only_ignores_ampersand:
  assumes "foreground_only s \<noteq> 0"
    and "tokens (c_str input_buffer) \<noteq> [] \<and> last (tokens (c_str input_buffer)) = ''&''"
    and "parse_input input_buffer (background_tracker os s) = Returns (Some c) s1"
  shows "\<not> is_background c \<and>
         (arg_variables c 0 = Some name \<and> name \<noteq> ''exit'' \<and> name \<noteq> ''cd'' \<and>
          name \<noteq> ''status'' \<and> fork_ret os \<noteq> - 1 \<and> fork_ret os \<noteq> 0 \<longrightarrow>
            shell_iteration os input_buffer s =
              Returns ()
                (s1\<lparr>latest_status := waitpid_status os (fork_ret os),
                    events := events s1 @ Waitpid (fork_ret os) 0 #
                      (if WIFSIGNALED (waitpid_status os (fork_ret os))
                       then [Stdout (''terminated by signal '' @
                               show_int (WTERMSIG (waitpid_status os (fork_ret os))) @
                               ''\<newline>'')]
                       else [])\<rparr>) \<and>
            main_loop ((os, input_buffer) # later) s =
              main_loop later
                (s1\<lparr>latest_status := waitpid_status os (fork_ret os),
                    events := events s1 @ Waitpid (fork_ret os) 0 #
                      (if WIFSIGNALED (waitpid_status os (fork_ret os))
                       then [Stdout (''terminated by signal '' @
                               show_int (WTERMSIG (waitpid_status os (fork_ret os))) @
                               ''\<newline>'')]
                       else [])\<rparr>) \<and>
            Waitpid (fork_ret os) 0 \<in>
              set (drop (length (events s1))
                    (events (state_of (shell_iteration os input_buffer s)))) \<and>
            Stdout (''background pid is '' @ show_int pid @ ''\<newline>'') \<notin>
              set (drop (length (events s1))
                    (events (state_of (shell_iteration os input_buffer s)))))"
proof -
  have "foreground_only (background_tracker os s) \<noteq> 0"
    using assms(1) by (simp add: foreground_only_background_tracker)
  from parse_input_keeps_foreground [OF this assms(3)]
  have fg: "\<not> is_background c" .
  show ?thesis
  proof (intro conjI impI)
    show "\<not> is_background c" by (rule fg)
  next
    assume h: "arg_variables c 0 = Some name \<and> name \<noteq> ''exit'' \<and> name \<noteq> ''cd'' \<and>
          name \<noteq> ''status'' \<and> fork_ret os \<noteq> - 1 \<and> fork_ret os \<noteq> 0"
    then have b: "built_in_commands os c s1 = Returns (- 1) s1"
      by (simp add: built_in_commands_external)
    from h have e: "exec_commands os c s1 =
           Returns 0
             (s1\<lparr>latest_status := waitpid_status os (fork_ret os),
                events := events s1 @ Waitpid (fork_ret os) 0 #
                  (if WIFSIGNALED (waitpid_status os (fork_ret os))
                   then [Stdout (''terminated by signal '' @
                           show_int (WTERMSIG (waitpid_status os (fork_ret os))) @
                           ''\<newline>'')]
                   else [])\<rparr>)"
      using fg by (simp add: exec_commands_foreground)
    show it: "shell_iteration os input_buffer s =
              Returns ()
                (s1\<lparr>latest_status := waitpid_status os (fork_ret os),
                    events := events s1 @ Waitpid (fork_ret os) 0 #
                      (if WIFSIGNALED (waitpid_status os (fork_ret os))
                       then [Stdout (''terminated by signal '' @
                               show_int (WTERMSIG (waitpid_status os (fork_ret os))) @
                               ''\<newline>'')]
                       else [])\<rparr>)"
      by (simp add: shell_iteration_def assms(3) b e)
    then show "main_loop ((os, input_buffer) # later) s =
              main_loop later
                (s1\<lparr>latest_status := waitpid_status os (fork_ret os),
                    events := events s1 @ Waitpid (fork_ret os) 0 #
                      (if WIFSIGNALED (waitpid_status os (fork_ret os))
                       then [Stdout (''terminated by signal '' @
                               show_int (WTERMSIG (waitpid_status os (fork_ret os))) @
                               ''\<newline>'')]
                       else [])\<rparr>)"
      by simp
    from it show "Waitpid (fork_ret os) 0 \<in>
              set (drop (length (events s1))
                    (events (state_of (shell_iteration os input_buffer s))))"
      by simp
    from it show "Stdout (''background pid is '' @ show_int pid @ ''\<newline>'') \<notin>
              set (drop (length (events s1))
                    (events (state_of (shell_iteration os input_buffer s))))"
      by simp
  qed
qed

theorem foreground_only_ignores_ampersand_witness:
  "foreground_only (handle_signal_tstp initial_shell) \<noteq> 0 \<and>
   tokens (c_str ''sleep 5 &\<newline>'') \<noteq> [] \<and>
   last (tokens (c_str ''sleep 5 &\<newline>'')) = ''&'' \<and>
   parse_input ''sleep 5 &\<newline>''
       (background_tracker (example_os 4923 2) (handle_signal_tstp initial_shell)) =
     Returns (Some sleep_command)
       (emit (Stdout '': '')
          (background_tracker (example_os 4923 2) (handle_signal_tstp initial_shell))) \<and>
   arg_variables sleep_command 0 = Some ''sleep'' \<and>
   fork_ret (example_os 4923 2) = 4923 \<and>
   \<not> is_background sleep_command \<and>
   shell_iteration (example_os 4923 2) ''sleep 5 &\<newline>'' (handle_signal_tstp initial_shell) =
     Returns ()
       \<lparr>latest_status = 2, foreground_only = 1,
        events = [Stdout start_message, Waitpid (- 1) 1, Stdout '': '', Waitpid 4923 0,
                  Stdout ''terminated by signal 2\<newline>'']\<rparr>"
  using foreground_only_ignores_ampersand
    [of "handle_signal_tstp initial_shell" "''sleep 5 &\<newline>''" "example_os 4923 2"
        sleep_command
        "emit (Stdout '': '')
           (background_tracker (example_os 4923 2) (handle_signal_tstp initial_shell))"
        "''sleep''" "[]" 4923]
  by (simp add: eval_defs tokens.simps)

subsection \<open>Failure of \<^verbatim>\<open>fork\<close>\<close>

text \<open>
  C5. When \<^verbatim>\<open>fork\<close> returns -1, \<open>exec_commands\<close> reports the error with \<^verbatim>\<open>perror\<close>
  and returns 1; \<^verbatim>\<open>latest_status\<close> keeps its value; and the pass of the main loop that
  ran the external command ends normally, so that the loop goes on with its next pass.
\<close>

theorem fork_failure:
  assumes "fork_ret os = - 1"
  shows "exec_commands os c s =
           Returns 1 (emit (Stderr (''fork: '' @ strerror_errno os @ ''\<newline>'')) s) \<and>
         latest_status (state_of (exec_commands os c s)) = latest_status s \<and>
         (parse_input input_buffer (background_tracker os s) = Returns (Some c) s1 \<and>
          arg_variables c 0 = Some name \<and> name \<noteq> ''exit'' \<and> name \<noteq> ''cd'' \<and>
          name \<noteq> ''status'' \<longrightarrow>
            shell_iteration os input_buffer s =
              Returns () (emit (Stderr (''fork: '' @ strerror_errno os @ ''\<newline>'')) s1) \<and>
            main_loop ((os, input_buffer) # later) s =
              main_loop later (emit (Stderr (''fork: '' @ strerror_errno os @ ''\<newline>'')) s1))"
  using assms
  by (simp add: exec_commands_def Let_def latest_status_emit shell_iteration_def
      built_in_commands_def)


theorem fork_failure_witness:
  "fork_ret (example_os (- 1) 0) = - 1 \<and>
   parse_input ''sleep 5\<newline>'' (background_tracker (example_os (- 1) 0) initial_shell) =
     Returns (Some sleep_command)
       (emit (Stdout '': '') (background_tracker (example_os (- 1) 0) initial_shell)) \<and>
   exec_commands (example_os (- 1) 0) sleep_command initial_shell =
     Returns 1 (emit (Stderr ''fork: No such file or directory\<newline>'') initial_shell) \<and>
   shell_iteration (example_os (- 1) 0) ''sleep 5\<newline>'' initial_shell =
     Returns ()
       \<lparr>latest_status = 0, foreground_only = 0,
        events = [Waitpid (- 1) 1, Stdout '': '',
                  Stderr ''fork: No such file or directory\<newline>'']\<rparr>"
  using fork_failure
    [of "example_os (- 1) 0" sleep_command initial_shell "''sleep 5\<newline>''"
        "emit (Stdout '': '') (background_tracker (example_os (- 1) 0) initial_shell)"
        "''sleep''" "[]"]
  by (simp add: eval_defs)

subsection \<open>The messages of \<^verbatim>\<open>handle_signal_tstp\<close>\<close>

text \<open>
  C6, as the claim states it: entering foreground-only mode writes exactly the line
  \<^verbatim>\<open>Entering foreground-only mode (& is now ignored)\<close>. The handler writes more.
\<close>

theorem tstp_message_counterexample:
  "events (handle_signal_tstp initial_shell) \<noteq>
     [Stdout ''Entering foreground-only mode (& is now ignored)\<newline>'']"
  by (simp add: eval_defs)

text \<open>
  C6, amended. The handler toggles \<^verbatim>\<open>foreground_only\<close> and writes the message of the
  claim between a newline before it and a newline and one space after it.
\<close>

theorem tstp_messages:
  "(foreground_only s = 0 \<longrightarrow>
      handle_signal_tstp s =
        s\<lparr>foreground_only := 1,
          events := events s @
            [Stdout ''\<newline>Entering foreground-only mode (& is now ignored)\<newline> '']\<rparr>) \<and>
   (foreground_only s \<noteq> 0 \<longrightarrow>
      handle_signal_tstp s =
        s\<lparr>foreground_only := 0,
          events := events s @ [Stdout ''\<newline>Exiting foreground-only mode\<newline> '']\<rparr>)"
  by (simp add: handle_signal_tstp_def emit_def start_message_def exit_message_def)

theorem tstp_messages_witness:
  "foreground_only initial_shell = 0 \<and>
   handle_signal_tstp initial_shell =
     \<lparr>latest_status = 0, foreground_only = 1,
      events = [Stdout ''\<newline>Entering foreground-only mode (& is now ignored)\<newline> '']\<rparr> \<and>
   foreground_only (handle_signal_tstp initial_shell) \<noteq> 0 \<and>
   handle_signal_tstp (handle_signal_tstp initial_shell) =
     \<lparr>latest_status = 0, foreground_only = 0,
      events = [Stdout ''\<newline>Entering foreground-only mode (& is now ignored)\<newline> '',
                Stdout ''\<newline>Exiting foreground-only mode\<newline> '']\<rparr>"
  using tstp_messages [of initial_shell] tstp_messages [of "handle_signal_tstp initial_shell"]
  by (simp add: initial_shell_def)

subsection \<open>Lines without a command name\<close>

text \<open>
  C7. The line \<^verbatim>\<open>&\<close> is neither blank nor a comment for \<open>parse_input\<close>, which returns
  a command with no argument: \<^verbatim>\<open>arg_count\<close> is 0 and \<^verbatim>\<open>arg_variables[0]\<close> is \<^verbatim>\<open>NULL\<close>.
  The main loop hands it to \<open>built_in_commands\<close>, whose first \<^verbatim>\<open>strcmp\<close> reads that
  \<^verbatim>\<open>NULL\<close>.
\<close>

theorem ampersand_line_has_no_argument:
  "result (parse_input ''&\<newline>'' initial_shell) =
     Some (Inr (Some
       \<lparr>arg_variables = (\<lambda>_. None), arg_count = 0, input_file = None, output_file = None,
        is_background = True\<rparr>)) \<and>
   shell_iteration (example_os 4923 0) ''&\<newline>'' initial_shell =
     Faults NullDeref
       \<lparr>latest_status = 0, foreground_only = 0, events = [Waitpid (- 1) 1, Stdout '': '']\<rparr>"
  by (simp add: eval_defs)

subsection \<open>What the parsed command depends on\<close>

text \<open>
  C8, as the claim states it: the command parsed from a line is the same whatever the
  state of the shell. After one \<^verbatim>\<open>SIGTSTP\<close> the same line \<^verbatim>\<open>sleep 5 &\<close> gives another
  command.
\<close>

theorem parse_input_state_counterexample:
  "result (parse_input ''sleep 5 &\<newline>'' initial_shell) \<noteq>
   result (parse_input ''sleep 5 &\<newline>'' (handle_signal_tstp initial_shell))"
  by (simp add: eval_defs)

lemma parse_token_flag:
  "(fg1 = 0) = (fg2 = 0) \<Longrightarrow> parse_token fg1 token rest c = parse_token fg2 token rest c"
  by (simp add: parse_token_def)

lemma parse_loop_flag:
  "(fg1 = 0) = (fg2 = 0) \<Longrightarrow> parse_loop fg1 tok c = parse_loop fg2 tok c"
proof (induction fg1 tok c rule: parse_loop.induct)
  case (1 fg_only c)
  then show ?case by simp
next
  case (2 fg_only token rest c)
  have eq: "parse_token fg2 token rest c = parse_token fg_only token rest c"
    using parse_token_flag [OF "2.prems", of token rest c] by simp
  show ?case
  proof (cases "parse_token fg_only token rest c")
    case (Inl e)
    then show ?thesis by (simp add: eq)
  next
    case (Inr p)
    obtain c1 rest1 where p: "p = (c1, rest1)" by (cases p)
    from "2.IH" [OF Inr p [symmetric] "2.prems"] Inr p
    show ?thesis by (simp add: eq)
  qed
qed


text \<open>
  C8, amended. What \<open>parse_input\<close> gives back (no command, a command, or a fault) depends
  on the line and on whether \<^verbatim>\<open>foreground_only\<close> is 0, and on nothing else of the
  state of the shell.
\<close>

theorem parse_input_deterministic:
  assumes "(foreground_only s1 = 0) = (foreground_only s2 = 0)"
  shows "result (parse_input input_buffer s1) = result (parse_input input_buffer s2)"
  using parse_loop_flag [OF assms, of "strtok delimiters (c_str input_buffer)" calloc_command]
  by (simp add: parse_input_def Let_def emit_def split: sum.splits)


theorem parse_input_deterministic_witness:
  "(foreground_only initial_shell = 0) =
     (foreground_only
        (handle_signal_tstp (handle_signal_tstp (initial_shell\<lparr>latest_status := 256\<rparr>))) = 0) \<and>
   result (parse_input ''sleep 5 &\<newline>'' initial_shell) =
     result (parse_input ''sleep 5 &\<newline>''
       (handle_signal_tstp (handle_signal_tstp (initial_shell\<lparr>latest_status := 256\<rparr>))))"
  using parse_input_deterministic
    [of initial_shell
        "handle_signal_tstp (handle_signal_tstp (initial_shell\<lparr>latest_status := 256\<rparr>))"
        "''sleep 5 &\<newline>''"]
  by (simp add: handle_signal_tstp_def emit_def initial_shell_def)

subsection \<open>The bound of \<^verbatim>\<open>arg_variables\<close>\<close>

lemma strtok_one_argument: "strtok delimiters (CHR ''a'' # CHR '' '' # r) = Some (''a'', r)"
  by (simp add: strtok_def delimiters_def)

lemma parse_token_argument:
  assumes "token \<noteq> ''<''" "token \<noteq> ''>''" "token \<noteq> ''&''"
  shows "parse_token fg_only token rest c =
           (if arg_count c < MAX_ARGS
            then Inr (c\<lparr>arg_variables := (arg_variables c)
                           (arg_count c := Some token, arg_count c + 1 := None),
                        arg_count := arg_count c + 1\<rparr>, rest)
            else Inl OutOfBounds)"
  using assms by (simp add: parse_token_def)

lemma many_arguments_overflow:
  "arg_count c + Suc m = MAX_ARGS + 1 \<Longrightarrow>
   parse_loop fg_only (strtok delimiters (concat (replicate (Suc m) ''a '') @ r)) c =
     Inl OutOfBounds"
proof (induction m arbitrary: c)
  case 0
  then show ?case
    by (simp add: strtok_one_argument parse_token_argument)
next
  case (Suc m)
  let ?c1 = "c\<lparr>arg_variables := (arg_variables c)
                 (arg_count c := Some ''a'', arg_count c + 1 := None),
               arg_count := arg_count c + 1\<rparr>"
  from Suc.prems have lt: "arg_count c < MAX_ARGS" by simp
  from Suc.prems have "arg_count ?c1 + Suc m = MAX_ARGS + 1" by simp
  from Suc.IH [OF this]
  have ih: "parse_loop fg_only (strtok delimiters (concat (replicate (Suc m) ''a '') @ r)) ?c1 =
          Inl OutOfBounds" .
  have step: "parse_loop fg_only (strtok delimiters (CHR ''a'' # CHR '' '' # x)) c =
      parse_loop fg_only (strtok delimiters x) ?c1" for x
    using lt by (simp add: strtok_one_argument parse_token_argument)
  have "concat (replicate (Suc (Suc m)) ''a '') @ r =
      CHR ''a'' # CHR '' '' # (concat (replicate (Suc m) ''a '') @ r)"
    by simp
  then show ?case
    by (simp only: step ih)
qed

lemma c_str_arguments:
  "c_str (concat (replicate n ''a '') @ ''\<newline>'') = concat (replicate n ''a '') @ ''\<newline>''"
  by (induction n) (simp_all add: c_str_def)

lemma length_arguments: "length (concat (replicate n ''a '')) = 2 * n"
  by (induction n) simp_all


text \<open>
  C9. A line of 513 arguments is shorter than \<open>INPUT_LENGTH\<close>, so \<^verbatim>\<open>fgets\<close> reads it
  whole. The loop of \<open>parse_input\<close> stores the 513th argument in the last slot, counts
  \<^verbatim>\<open>arg_count\<close> up to 513 and then writes \<^verbatim>\<open>NULL\<close> to \<^verbatim>\<open>arg_variables[513]\<close>, outside the
  array.
\<close>

theorem many_arguments_out_of_bounds:
  "length many_arguments_line < INPUT_LENGTH \<and>
   parse_input many_arguments_line initial_shell =
     Faults OutOfBounds (emit (Stdout '': '') initial_shell)"
proof
  show "length many_arguments_line < INPUT_LENGTH"
    by (simp add: many_arguments_line_def length_arguments MAX_ARGS_def INPUT_LENGTH_def)
  have "parse_loop (foreground_only (emit (Stdout '': '') initial_shell))
          (strtok delimiters (concat (replicate (Suc MAX_ARGS) ''a '') @ ''\<newline>''))
          calloc_command = Inl OutOfBounds"
    by (rule many_arguments_overflow) (simp add: calloc_command_def)
  moreover have "first_byte many_arguments_line = CHR ''a''"
    by (simp add: many_arguments_line_def first_byte_def)
  ultimately show "parse_input many_arguments_line initial_shell =
      Faults OutOfBounds (emit (Stdout '': '') initial_shell)"
    using c_str_arguments [of "Suc MAX_ARGS"]
    by (simp add: parse_input_def Let_def many_arguments_line_def)
qed


subsection \<open>\<^verbatim>\<open>NULL\<close> passed to \<^verbatim>\<open>strdup\<close>\<close>

text \<open>
  C10, as the claim states it: every line whose last token is a bare \<^verbatim>\<open><\<close> makes
  \<open>parse_input\<close> pass \<^verbatim>\<open>NULL\<close> to \<^verbatim>\<open>strdup\<close>. In \<^verbatim>\<open>cat < <\<close> the last token is the
  file name of the operator before it, and the command is returned.
\<close>

theorem unfinished_redirection_counterexample:
  "last (tokens (c_str ''cat < <\<newline>'')) = ''<'' \<and>
   result (parse_input ''cat < <\<newline>'' initial_shell) \<noteq> Some (Inl NullDeref)"
  by (simp add: eval_defs tokens.simps)

lemma tokens_None: "strtok delimiters r = None \<Longrightarrow> tokens r = []"
  by (simp add: tokens.simps)

lemma tokens_Some: "strtok delimiters r = Some (t, r1) \<Longrightarrow> tokens r = t # tokens r1"
  by (simp add: tokens.simps)

lemma dangling_redirection_skip:
  "t \<noteq> ''<'' \<Longrightarrow> t \<noteq> ''>'' \<Longrightarrow> dangling_redirection (t # ts) = dangling_redirection ts"
  by (cases ts) simp_all

lemma parse_token_redirection:
  assumes "token = ''<'' \<or> token = ''>''" and "arg_count c \<le> MAX_ARGS"
  shows "strtok delimiters rest = None \<Longrightarrow>
           parse_token fg_only token rest c = Inl NullDeref"
    and "strtok delimiters rest = Some (name, rest1) \<Longrightarrow>
           \<exists>c'. parse_token fg_only token rest c = Inr (c', rest1) \<and> arg_count c' = arg_count c"
  using assms by (auto simp: parse_token_def)

lemma parse_token_ampersand:
  assumes "arg_count c \<le> MAX_ARGS"
  shows "\<exists>c'. parse_token fg_only ''&'' rest c = Inr (c', rest) \<and> arg_count c' = arg_count c"
  using assms by (simp add: parse_token_def)

lemma parse_token_argument_count:
  assumes "token \<noteq> ''<''" "token \<noteq> ''>''" "token \<noteq> ''&''" and "arg_count c < MAX_ARGS"
  shows "\<exists>c'. parse_token fg_only token rest c = Inr (c', rest) \<and>
           arg_count c' = arg_count c + 1"
  using assms by (simp add: parse_token_def)

lemma parse_loop_dangling:
  "arg_count c + length (tokens r) \<le> MAX_ARGS \<Longrightarrow>
   (case parse_loop fg_only (strtok delimiters r) c of
      Inl e \<Rightarrow> e = NullDeref \<and> dangling_redirection (tokens r)
    | Inr c' \<Rightarrow> \<not> dangling_redirection (tokens r))"
proof (induction "length r" arbitrary: r c rule: less_induct)
  case less
  show ?case
  proof (cases "strtok delimiters r")
    case None
    then show ?thesis by (simp add: tokens_None)
  next
    case (Some p)
    obtain t r1 where p: "p = (t, r1)" by (cases p)
    with Some have st: "strtok delimiters r = Some (t, r1)" by simp
    then have tk: "tokens r = t # tokens r1" by (rule tokens_Some)
    from st have len1: "length r1 < length r" by (rule strtok_rest_shorter)
    from less.prems tk have cnt: "arg_count c \<le> MAX_ARGS" by simp
    consider (redirection) "t = ''<'' \<or> t = ''>''" | (ampersand) "t = ''&''"
      | (argument) "t \<noteq> ''<''" "t \<noteq> ''>''" "t \<noteq> ''&''"
      by blast
    then show ?thesis
    proof cases
      case redirection
      show ?thesis
      proof (cases "strtok delimiters r1")
        case None
        from parse_token_redirection(1) [OF redirection cnt None] tokens_None [OF None]
        show ?thesis using redirection by (auto simp: st tk)
      next
        case (Some q)
        obtain name r2 where q: "q = (name, r2)" by (cases q)
        with Some have st1: "strtok delimiters r1 = Some (name, r2)" by simp
        then have tk1: "tokens r1 = name # tokens r2" by (rule tokens_Some)
        from st1 have "length r2 < length r1" by (rule strtok_rest_shorter)
        with len1 have len2: "length r2 < length r" by simp
        from parse_token_redirection(2) [OF redirection cnt st1]
        obtain c' where pt: "parse_token fg_only t r1 c = Inr (c', r2)"
          and ac: "arg_count c' = arg_count c" by blast
        from less.prems tk tk1 ac have "arg_count c' + length (tokens r2) \<le> MAX_ARGS"
          by simp
        from less.hyps [OF len2 this]
        have ih: "case parse_loop fg_only (strtok delimiters r2) c' of
                    Inl e \<Rightarrow> e = NullDeref \<and> dangling_redirection (tokens r2)
                  | Inr c' \<Rightarrow> \<not> dangling_redirection (tokens r2)" .
        have d: "dangling_redirection (tokens r) = dangling_redirection (tokens r2)"
          using redirection by (auto simp: tk tk1)
        have pl: "parse_loop fg_only (strtok delimiters r) c =
            parse_loop fg_only (strtok delimiters r2) c'"
          by (simp add: st pt)
        show ?thesis
          unfolding d pl by (rule ih)
      qed
    next
      case ampersand
      from parse_token_ampersand [OF cnt]
      obtain c' where pt: "parse_token fg_only ''&'' r1 c = Inr (c', r1)"
        and ac: "arg_count c' = arg_count c" by blast
      from less.prems tk ac have "arg_count c' + length (tokens r1) \<le> MAX_ARGS"
        by simp
      from less.hyps [OF len1 this]
      have ih: "case parse_loop fg_only (strtok delimiters r1) c' of
                  Inl e \<Rightarrow> e = NullDeref \<and> dangling_redirection (tokens r1)
                | Inr c' \<Rightarrow> \<not> dangling_redirection (tokens r1)" .
      have d: "dangling_redirection (tokens r) = dangling_redirection (tokens r1)"
        using ampersand by (simp add: tk dangling_redirection_skip)
      have pl: "parse_loop fg_only (strtok delimiters r) c =
          parse_loop fg_only (strtok delimiters r1) c'"
        using ampersand by (simp add: st pt)
      show ?thesis
        unfolding d pl by (rule ih)
    next
      case argument
      from less.prems tk have "arg_count c < MAX_ARGS" by simp
      from parse_token_argument_count [OF argument this]
      obtain c' where pt: "parse_token fg_only t r1 c = Inr (c', r1)"
        and ac: "arg_count c' = arg_count c + 1" by blast
      from less.prems tk ac have "arg_count c' + length (tokens r1) \<le> MAX_ARGS"
        by simp
      from less.hyps [OF len1 this]
      have ih: "case parse_loop fg_only (strtok delimiters r1) c' of
                  Inl e \<Rightarrow> e = NullDeref \<and> dangling_redirection (tokens r1)
                | Inr c' \<Rightarrow> \<not> dangling_redirection (tokens r1)" .
      have d: "dangling_redirection (tokens r) = dangling_redirection (tokens r1)"
        using argument by (simp add: tk dangling_redirection_skip)
      have pl: "parse_loop fg_only (strtok delimiters r) c =
          parse_loop fg_only (strtok delimiters r1) c'"
        by (simp add: st pt)
      show ?thesis
        unfolding d pl by (rule ih)
    qed
  qed
qed


text \<open>
  C10, amended. For a line that is not skipped as blank or comment and has at most
  \<open>MAX_ARGS\<close> tokens, \<open>parse_input\<close> passes \<^verbatim>\<open>NULL\<close> to \<^verbatim>\<open>strdup\<close> exactly when the
  line has a dangling redirection: a \<^verbatim>\<open><\<close> or \<^verbatim>\<open>>\<close> that is not itself the file name
  of the operator before it, and that is the last token. Otherwise it returns a command.
\<close>

theorem null_dereference_iff_dangling_redirection:
  assumes "first_byte input_buffer \<noteq> CHR ''\<newline>''" and "first_byte input_buffer \<noteq> CHR ''#''"
    and "length (tokens (c_str input_buffer)) \<le> MAX_ARGS"
  shows "(result (parse_input input_buffer s) = Some (Inl NullDeref)) =
           dangling_redirection (tokens (c_str input_buffer)) \<and>
         (\<not> dangling_redirection (tokens (c_str input_buffer)) \<longrightarrow>
            (\<exists>c. result (parse_input input_buffer s) = Some (Inr (Some c))))"
proof -
  from assms(3) have "arg_count calloc_command + length (tokens (c_str input_buffer)) \<le> MAX_ARGS"
    by (simp add: calloc_command_def)
  from parse_loop_dangling [OF this, of "foreground_only s"] assms(1,2)
  show ?thesis
    by (cases "parse_loop (foreground_only s) (strtok delimiters (c_str input_buffer))
          calloc_command")
      (auto simp: parse_input_def Let_def emit_def)
qed

theorem null_dereference_iff_dangling_redirection_witness:
  "first_byte ''cat <\<newline>'' \<noteq> CHR ''\<newline>'' \<and> first_byte ''cat <\<newline>'' \<noteq> CHR ''#'' \<and>
   length (tokens (c_str ''cat <\<newline>'')) \<le> MAX_ARGS \<and>
   dangling_redirection (tokens (c_str ''cat <\<newline>'')) \<and>
   result (parse_input ''cat <\<newline>'' initial_shell) = Some (Inl NullDeref) \<and>
   first_byte ''cat < <\<newline>'' \<noteq> CHR ''\<newline>'' \<and> first_byte ''cat < <\<newline>'' \<noteq> CHR ''#'' \<and>
   length (tokens (c_str ''cat < <\<newline>'')) \<le> MAX_ARGS \<and>
   \<not> dangling_redirection (tokens (c_str ''cat < <\<newline>'')) \<and>
   (\<exists>c. result (parse_input ''cat < <\<newline>'' initial_shell) = Some (Inr (Some c)))"
proof -
  have t1: "tokens (c_str ''cat <\<newline>'') = [''cat'', ''<'']"
    by (simp add: tokens.simps c_str_def strtok_def delimiters_def)
  have t2: "tokens (c_str ''cat < <\<newline>'') = [''cat'', ''<'', ''<'']"
    by (simp add: tokens.simps c_str_def strtok_def delimiters_def)
  show ?thesis
    using null_dereference_iff_dangling_redirection [of "''cat <\<newline>''" initial_shell]
      null_dereference_iff_dangling_redirection [of "''cat < <\<newline>''" initial_shell]
    by (simp add: t1 t2 first_byte_def MAX_ARGS_def)
qed

end
